theory Spec2Isabelle
  imports Complex_Main
begin

section \<open>Numbers, errors and builtins\<close>

text \<open>
  The program is \<^verbatim>\<open>app_20251128120048.py\<close>: the statistical core of a Probable Maximum
  Precipitation estimator. Its numbers are Python \<^verbatim>\<open>int\<close>s and \<^verbatim>\<open>float\<close>s. They are modelled
  as exact reals: the arithmetic of the model is the one the formulas of the source denote,
  without the rounding, the overflow and the NaN of IEEE doubles. Every operation of the
  source that can raise is a branch of the model: division by zero, \<^verbatim>\<open>math.sqrt\<close> of a
  negative number, \<^verbatim>\<open>max\<close> and \<^verbatim>\<open>min\<close> of an empty list, \<^verbatim>\<open>list.remove\<close> of an absent value.
\<close>

datatype py_error = ValueError | ZeroDivisionError

definition bind_err :: "py_error + 'a \<Rightarrow> ('a \<Rightarrow> py_error + 'b) \<Rightarrow> py_error + 'b" where
  "bind_err m f = (case m of Inl e \<Rightarrow> Inl e | Inr v \<Rightarrow> f v)"

text \<open>\<^verbatim>\<open>a / b\<close> raises ZeroDivisionError when \<^verbatim>\<open>b\<close> is zero.\<close>

definition py_truediv :: "real \<Rightarrow> real \<Rightarrow> py_error + real" where
  "py_truediv a b = (if b = 0 then Inl ZeroDivisionError else Inr (a / b))"

text \<open>\<^verbatim>\<open>math.sqrt(x)\<close> raises ValueError (math domain error) when \<^verbatim>\<open>x\<close> is negative.\<close>

definition py_sqrt :: "real \<Rightarrow> py_error + real" where
  "py_sqrt x = (if x < 0 then Inl ValueError else Inr (sqrt x))"

text \<open>
  \<^verbatim>\<open>max(values)\<close> and \<^verbatim>\<open>min(values)\<close> of one iterable: ValueError when it is empty, otherwise
  a scan that keeps the first item and replaces it by each later item that is strictly
  greater (strictly smaller).
\<close>

definition py_max :: "real list \<Rightarrow> py_error + real" where
  "py_max vs = (case vs of [] \<Rightarrow> Inl ValueError
     | v # rest \<Rightarrow> Inr (fold (\<lambda>item max_item. if item > max_item then item else max_item) rest v))"

definition py_min :: "real list \<Rightarrow> py_error + real" where
  "py_min vs = (case vs of [] \<Rightarrow> Inl ValueError
     | v # rest \<Rightarrow> Inr (fold (\<lambda>item min_item. if item < min_item then item else min_item) rest v))"

text \<open>
  \<^verbatim>\<open>xs.remove(x)\<close> deletes the first item equal to \<^verbatim>\<open>x\<close> and raises ValueError when there
  is none. The model returns the list after the deletion.
\<close>

fun list_remove :: "real list \<Rightarrow> real \<Rightarrow> py_error + real list" where
  "list_remove [] x = Inl ValueError"
| "list_remove (y # ys) x =
     (if y = x then Inr ys
      else (case list_remove ys x of Inl e \<Rightarrow> Inl e | Inr zs \<Rightarrow> Inr (y # zs)))"

text \<open>
  \<^verbatim>\<open>round(x, 2)\<close>: the multiple of 0.01 nearest to \<^verbatim>\<open>x\<close>, a tie going to the even multiple.
\<close>

definition round_half_even :: "real \<Rightarrow> int" where
  "round_half_even x =
     (let f = \<lfloor>x\<rfloor>; d = x - of_int f
      in if d < 1 / 2 then f else if d > 1 / 2 then f + 1 else if even f then f else f + 1)"

definition py_round2 :: "real \<Rightarrow> real" where
  "py_round2 x = of_int (round_half_even (x * 100)) / 100"

section \<open>Descriptive statistics\<close>

text \<open>
  \<^verbatim>\<open>
  def calculate_mean(values):
      if not values:
          return 0
      return sum(values) / len(values)
  \<close>
\<close>

definition calculate_mean :: "real list \<Rightarrow> py_error + real" where
  "calculate_mean values =
     (if values = [] then Inr 0
      else py_truediv (sum_list values) (of_nat (length values)))"

text \<open>
  \<^verbatim>\<open>
  def calculate_std(values):
      n = len(values)
      if n < 2:
          return 0
      mean = calculate_mean(values)
      squared = [(v - mean) ** 2 for v in values]
      variance = sum(squared) / (n - 1)
      return sqrt(variance)
  \<close>
  The square is the square of exact reals, which always has a value. Python's float
  \<^verbatim>\<open>**\<close> raises OverflowError when the result exceeds the largest double (a deviation above
  about \<open>1.3 * 10\<^sup>1\<^sup>5\<^sup>4\<close>): this model has no branch for it, and says nothing about series of
  that magnitude.
\<close>

definition calculate_std :: "real list \<Rightarrow> py_error + real" where
  "calculate_std values =
     (let n = length values in
      if n < 2 then Inr 0
      else bind_err (calculate_mean values) (\<lambda>mean.
        let squared = map (\<lambda>v. (v - mean) ^ 2) values in
        bind_err (py_truediv (sum_list squared) (of_nat n - 1)) (\<lambda>variance.
        py_sqrt variance)))"

text \<open>
  \<^verbatim>\<open>
  def calculate_trend(values):
      n = len(values)
      if n < 2:
          return 0
      x = list(range(n))
      x_mean = calculate_mean(x)
      y_mean = calculate_mean(values)
      num = sum((x[i] - x_mean) * (values[i] - y_mean) for i in range(n))
      den = sum((x[i] - x_mean) ** 2 for i in range(n))
      return num / den if den != 0 else 0
  \<close>
  The two sums are definitions of their own, so that a statement can name the denominator.
  Every index \<^verbatim>\<open>i\<close> is below \<^verbatim>\<open>n\<close>, the length of both lists.
\<close>

definition trend_num :: "real list \<Rightarrow> real \<Rightarrow> real list \<Rightarrow> real \<Rightarrow> real" where
  "trend_num x x_mean values y_mean =
     sum_list (map (\<lambda>i. (x ! i - x_mean) * (values ! i - y_mean)) [0..<length values])"

definition trend_den :: "real list \<Rightarrow> real \<Rightarrow> real" where
  "trend_den x x_mean = sum_list (map (\<lambda>i. (x ! i - x_mean) ^ 2) [0..<length x])"

definition calculate_trend :: "real list \<Rightarrow> py_error + real" where
  "calculate_trend values =
     (let n = length values in
      if n < 2 then Inr 0
      else
        let x = map of_nat [0..<n] in
        bind_err (calculate_mean x) (\<lambda>x_mean.
        bind_err (calculate_mean values) (\<lambda>y_mean.
        let num = trend_num x x_mean values y_mean;
            den = trend_den x x_mean
        in if den \<noteq> 0 then py_truediv num den else Inr 0)))"

section \<open>Yearly aggregator\<close>

text \<open>
  \<^verbatim>\<open>daily\<close> is a dict from the names of the daily series to lists whose items are a number
  or \<^verbatim>\<open>None\<close>; \<^verbatim>\<open>daily.get(key, [])\<close> is the list under \<^verbatim>\<open>key\<close>, or the empty list.
  The result is \<^verbatim>\<open>None\<close> or the summary dict, a record here.
\<close>

type_synonym daily = "string \<rightharpoonup> real option list"

definition dict_get :: "daily \<Rightarrow> string \<Rightarrow> real option list" where
  "dict_get d key = (case d key of None \<Rightarrow> [] | Some vs \<Rightarrow> vs)"

record annual_summary =
  year :: int
  amdp :: real
  totalPrecip :: real
  avgTemp :: "real option"
  maxTemp :: "real option"
  minTemp :: "real option"
  avgWind :: "real option"
  dataPoints :: nat

text \<open>
  \<^verbatim>\<open>[v for v in precipitation_sum if v is not None and v >= 0]\<close> and
  \<^verbatim>\<open>[v for v in temp_max if v is not None]\<close>.
\<close>

definition not_none_nonneg :: "real option list \<Rightarrow> real list" where
  "not_none_nonneg vs = [v. Some v \<leftarrow> vs, v \<ge> 0]"

definition not_none :: "real option list \<Rightarrow> real list" where
  "not_none vs = [v. Some v \<leftarrow> vs]"

text \<open>
  \<^verbatim>\<open>
  def process_yearly_data(daily, year):
      ...
      valid_precip = [v for v in precipitation_sum if v is not None and v >= 0]
      valid_tmax = [v for v in temp_max if v is not None]
      ...
      if not valid_precip:
          return None
      amdp = max(valid_precip)
      total_precip = sum(valid_precip)
      avg_temp = calculate_mean(valid_tmean) if valid_tmean else None
      max_temp = max(valid_tmax) if valid_tmax else None
      min_temp = min(valid_tmin) if valid_tmin else None
      avg_wind = calculate_mean(valid_wind) if valid_wind else None
      return {'year': int(year), 'amdp': amdp, ..., 'dataPoints': len(valid_precip)}
  \<close>
  The series \<^verbatim>\<open>time\<close> is read and never used. \<^verbatim>\<open>year\<close> is an integer, as the caller passes it.
\<close>

definition optional_of :: "real list \<Rightarrow> (real list \<Rightarrow> py_error + real) \<Rightarrow> py_error + real option" where
  "optional_of vs f = (if vs \<noteq> [] then bind_err (f vs) (\<lambda>r. Inr (Some r)) else Inr None)"

definition process_yearly_data :: "daily \<Rightarrow> int \<Rightarrow> py_error + annual_summary option" where
  "process_yearly_data d yr =
     (let precipitation_sum = dict_get d ''precipitation_sum'';
          temp_max = dict_get d ''temperature_2m_max'';
          temp_min = dict_get d ''temperature_2m_min'';
          temp_mean = dict_get d ''temperature_2m_mean'';
          wind_max = dict_get d ''windspeed_10m_max'';
          valid_precip = not_none_nonneg precipitation_sum;
          valid_tmax = not_none temp_max;
          valid_tmin = not_none temp_min;
          valid_tmean = not_none temp_mean;
          valid_wind = not_none wind_max
      in if valid_precip = [] then Inr None
         else
           bind_err (py_max valid_precip) (\<lambda>amdp_v.
           let total_precip = sum_list valid_precip in
           bind_err (optional_of valid_tmean calculate_mean) (\<lambda>avg_temp.
           bind_err (optional_of valid_tmax py_max) (\<lambda>max_temp.
           bind_err (optional_of valid_tmin py_min) (\<lambda>min_temp.
           bind_err (optional_of valid_wind calculate_mean) (\<lambda>avg_wind.
           Inr (Some \<lparr>year = yr, amdp = amdp_v, totalPrecip = total_precip,
                      avgTemp = avg_temp, maxTemp = max_temp, minTemp = min_temp,
                      avgWind = avg_wind, dataPoints = length valid_precip\<rparr>)))))))"

section \<open>Extreme value estimator\<close>

record confidence_interval =
  lower :: real
  upper :: real

record eva_result =
  pmp :: real
  frequencyFactor :: real
  confidenceInterval :: confidence_interval

text \<open>The local variables of \<^verbatim>\<open>calculate_pmp_with_eva\<close> at its \<^verbatim>\<open>return\<close>.\<close>

record eva_locals =
  l_mean :: real
  l_std :: real
  l_Xmax :: real
  l_rest :: "real list"
  l_Xmean :: real
  l_S :: real
  l_km_a :: real
  l_km_b :: real
  l_frequency_factor_raw :: real
  l_frequency_factor :: real
  l_pmp :: real
  l_n :: nat
  l_standard_error :: real

definition eps :: real where
  "eps = 1 / 1000000"

text \<open>
  \<^verbatim>\<open>
  rest = amdp_values.copy()
  try:
      rest.remove(Xmax)
  except ValueError:
      rest = amdp_values[:]
  \<close>
  The value of \<^verbatim>\<open>rest\<close> after these lines. Only ValueError is caught.
\<close>

definition eva_rest :: "real list \<Rightarrow> real \<Rightarrow> py_error + real list" where
  "eva_rest amdp_values Xmax =
     (case list_remove amdp_values Xmax of
        Inr rest \<Rightarrow> Inr rest
      | Inl ValueError \<Rightarrow> Inr amdp_values
      | Inl e \<Rightarrow> Inl e)"

text \<open>
  \<^verbatim>\<open>
  if rest:
      Xmean = calculate_mean(rest)
      S = max(calculate_std(rest), eps)
  else:
      Xmean = mean
      S = max(std, eps)
  \<close>
\<close>

definition eva_Xmean_S :: "real list \<Rightarrow> real \<Rightarrow> real \<Rightarrow> py_error + real \<times> real" where
  "eva_Xmean_S rest mean std =
     (if rest \<noteq> [] then
        bind_err (calculate_mean rest) (\<lambda>Xmean.
        bind_err (calculate_std rest) (\<lambda>s.
        Inr (Xmean, max s eps)))
      else Inr (mean, max std eps))"

text \<open>
  \<^verbatim>\<open>standard_error = std / (sqrt(n) if n > 0 else 1)\<close>
\<close>

definition eva_standard_error :: "real \<Rightarrow> nat \<Rightarrow> py_error + real" where
  "eva_standard_error std n =
     bind_err (if n > 0 then py_sqrt (of_nat n) else Inr 1) (\<lambda>divisor.
     py_truediv std divisor)"

text \<open>
  The body of \<^verbatim>\<open>calculate_pmp_with_eva\<close> from \<^verbatim>\<open>km_a\<close> on, given the values of the
  locals computed before (lines 98 to 113 of the source).
\<close>

definition eva_finish ::
  "real list \<Rightarrow> real \<Rightarrow> real \<Rightarrow> real \<Rightarrow> real list \<Rightarrow> real \<Rightarrow> real \<Rightarrow> py_error + eva_locals" where
  "eva_finish amdp_values mean std Xmax rest Xmean S =
     bind_err (py_truediv (Xmax - Xmean) S) (\<lambda>km_a.
     bind_err (py_truediv (Xmax - mean) (max std eps)) (\<lambda>km_b.
     let frequency_factor_raw = max km_a km_b;
         frequency_factor = max 1 (min 25 frequency_factor_raw);
         frequency_factor = py_round2 frequency_factor;
         pmp_v = mean + frequency_factor * std;
         n = length amdp_values
     in bind_err (eva_standard_error std n) (\<lambda>standard_error.
        Inr \<lparr>l_mean = mean, l_std = std, l_Xmax = Xmax, l_rest = rest, l_Xmean = Xmean,
             l_S = S, l_km_a = km_a, l_km_b = km_b,
             l_frequency_factor_raw = frequency_factor_raw,
             l_frequency_factor = frequency_factor, l_pmp = pmp_v, l_n = n,
             l_standard_error = standard_error\<rparr>)))"

definition eva_locals_of :: "real list \<Rightarrow> py_error + eva_locals" where
  "eva_locals_of amdp_values =
     bind_err (calculate_mean amdp_values) (\<lambda>mean.
     bind_err (calculate_std amdp_values) (\<lambda>std.
     bind_err (py_max amdp_values) (\<lambda>Xmax.
     bind_err (eva_rest amdp_values Xmax) (\<lambda>rest.
     bind_err (eva_Xmean_S rest mean std) (\<lambda>(Xmean, S).
     eva_finish amdp_values mean std Xmax rest Xmean S)))))"

text \<open>
  \<^verbatim>\<open>
  confidence_interval = {'lower': pmp - 1.96 * standard_error,
                         'upper': pmp + 1.96 * standard_error}
  return {'pmp': pmp, 'frequencyFactor': frequency_factor,
          'confidenceInterval': confidence_interval}
  \<close>
\<close>

definition eva_return :: "eva_locals \<Rightarrow> eva_result" where
  "eva_return l =
     \<lparr>pmp = l_pmp l, frequencyFactor = l_frequency_factor l,
      confidenceInterval =
        \<lparr>lower = l_pmp l - 196 / 100 * l_standard_error l,
         upper = l_pmp l + 196 / 100 * l_standard_error l\<rparr>\<rparr>"

definition calculate_pmp_with_eva :: "real list \<Rightarrow> py_error + eva_result" where
  "calculate_pmp_with_eva amdp_values =
     bind_err (eva_locals_of amdp_values) (\<lambda>l. Inr (eva_return l))"

section \<open>Hydrological parameter calculator\<close>




section \<open>The estimator on a store of list objects\<close>

text \<open>
  Python lists are mutable objects, and \<^verbatim>\<open>calculate_pmp_with_eva\<close> calls the mutating
  method \<^verbatim>\<open>remove\<close>. To say which object it changes, the list objects live in a store: an
  address is an index into the store, \<^verbatim>\<open>xs.copy()\<close> and \<^verbatim>\<open>xs[:]\<close> allocate a new
  object with the items of \<^verbatim>\<open>xs\<close>, and \<^verbatim>\<open>xs.remove(v)\<close> overwrites the object at the
  address of \<^verbatim>\<open>xs\<close>. Reading an object (\<^verbatim>\<open>len\<close>, \<^verbatim>\<open>sum\<close>, \<^verbatim>\<open>max\<close>, iteration) leaves the
  store as it is.
\<close>

type_synonym addr = nat

type_synonym store = "real list list"

definition store_copy :: "store \<Rightarrow> addr \<Rightarrow> store \<times> addr" where
  "store_copy h a = (h @ [h ! a], length h)"

definition store_remove :: "store \<Rightarrow> addr \<Rightarrow> real \<Rightarrow> store \<times> (py_error + unit)" where
  "store_remove h a x =
     (case list_remove (h ! a) x of
        Inl e \<Rightarrow> (h, Inl e)
      | Inr ys \<Rightarrow> (h[a := ys], Inr ()))"

text \<open>
  Lines 81 to 85 on the store: the new store and the address bound to \<^verbatim>\<open>rest\<close>.
\<close>

definition eva_rest_store :: "store \<Rightarrow> addr \<Rightarrow> real \<Rightarrow> store \<times> (py_error + addr)" where
  "eva_rest_store h amdp_values Xmax =
     (let (h1, rest) = store_copy h amdp_values;
          (h2, r) = store_remove h1 rest Xmax
      in case r of
           Inr u \<Rightarrow> (h2, Inr rest)
         | Inl ValueError \<Rightarrow> (let (h3, rest') = store_copy h2 amdp_values in (h3, Inr rest'))
         | Inl e \<Rightarrow> (h2, Inl e))"

text \<open>
  The whole function on the store: \<^verbatim>\<open>amdp_values\<close> is the address of the caller's list.
  An exception leaves the store as it is when it is raised.
\<close>

definition bind_store ::
  "py_error + 'a \<Rightarrow> store \<Rightarrow> ('a \<Rightarrow> store \<times> (py_error + 'b)) \<Rightarrow> store \<times> (py_error + 'b)" where
  "bind_store m h f = (case m of Inl e \<Rightarrow> (h, Inl e) | Inr v \<Rightarrow> f v)"

definition calculate_pmp_with_eva_store ::
  "store \<Rightarrow> addr \<Rightarrow> store \<times> (py_error + eva_result)" where
  "calculate_pmp_with_eva_store h amdp_values =
     bind_store (calculate_mean (h ! amdp_values)) h (\<lambda>mean.
     bind_store (calculate_std (h ! amdp_values)) h (\<lambda>std.
     bind_store (py_max (h ! amdp_values)) h (\<lambda>Xmax.
     (let (h', r) = eva_rest_store h amdp_values Xmax in
      bind_store r h' (\<lambda>rest.
        (h', bind_err (eva_Xmean_S (h' ! rest) mean std) (\<lambda>(Xmean, S).
             bind_err (eva_finish (h' ! amdp_values) mean std Xmax (h' ! rest) Xmean S) (\<lambda>l.
             Inr (eva_return l)))))))))"

section \<open>Closed forms of the statistics\<close>

text \<open>
  What the functions above return when they return: the sample standard deviation, and the
  locals of the estimator on a non-empty series. They are used in the proofs only; every
  statement below is about the functions of the program.
\<close>

definition std_value :: "real list \<Rightarrow> real" where
  "std_value vs =
     (if length vs < 2 then 0
      else sqrt (sum_list (map (\<lambda>v. (v - sum_list vs / of_nat (length vs)) ^ 2) vs)
                 / (of_nat (length vs) - 1)))"

definition Xmean_value :: "real list \<Rightarrow> real" where
  "Xmean_value vs =
     (let rest = remove1 (Max (set vs)) vs
      in if rest \<noteq> [] then sum_list rest / of_nat (length rest)
         else sum_list vs / of_nat (length vs))"

definition S_value :: "real list \<Rightarrow> real" where
  "S_value vs =
     (let rest = remove1 (Max (set vs)) vs
      in if rest \<noteq> [] then max (std_value rest) eps else max (std_value vs) eps)"

definition eva_locals_value :: "real list \<Rightarrow> eva_locals" where
  "eva_locals_value vs =
     (let mean = sum_list vs / of_nat (length vs);
          std = std_value vs;
          Xmax = Max (set vs);
          Xmean = Xmean_value vs;
          S = S_value vs;
          km_a = (Xmax - Xmean) / S;
          km_b = (Xmax - mean) / max std eps;
          ff = py_round2 (max 1 (min 25 (max km_a km_b)))
      in \<lparr>l_mean = mean, l_std = std, l_Xmax = Xmax,
           l_rest = remove1 (Max (set vs)) vs, l_Xmean = Xmean,
           l_S = S, l_km_a = km_a, l_km_b = km_b,
           l_frequency_factor_raw = max km_a km_b,
           l_frequency_factor = ff,
           l_pmp = mean + ff * std,
           l_n = length vs,
           l_standard_error = std / sqrt (of_nat (length vs))\<rparr>)"

section \<open>The builtins and the statistics return\<close>

lemma bind_err_Inr [simp]: "bind_err (Inr v) f = f v"
  by (simp add: bind_err_def)

lemma bind_err_Inl [simp]: "bind_err (Inl e) f = Inl e"
  by (simp add: bind_err_def)

lemma calculate_mean_eq:
  "calculate_mean vs = Inr (if vs = [] then 0 else sum_list vs / of_nat (length vs))"
  by (simp add: calculate_mean_def py_truediv_def)

lemma sum_squares_nonneg:
  fixes vs :: "real list"
  shows "0 \<le> sum_list (map (\<lambda>v. (v - m) ^ 2) vs)"
  by (induction vs) simp_all

lemma std_value_nonneg: "0 \<le> std_value vs"
proof (cases "length vs < 2")
  case True
  then show ?thesis by (simp add: std_value_def)
next
  case False
  then have "0 < real (length vs) - 1" by simp
  then show ?thesis
    using False sum_squares_nonneg [of "sum_list vs / of_nat (length vs)" vs]
    by (simp add: std_value_def)
qed

lemma calculate_std_eq: "calculate_std vs = Inr (std_value vs)"
proof (cases "length vs < 2")
  case True
  then show ?thesis by (simp add: calculate_std_def std_value_def)
next
  case False
  then have ne: "vs \<noteq> []" and n1: "0 < real (length vs) - 1" by auto
  have "0 \<le> sum_list (map (\<lambda>v. (v - sum_list vs / of_nat (length vs)) ^ 2) vs)
            / (real (length vs) - 1)"
    using sum_squares_nonneg n1 by (simp add: divide_nonneg_pos)
  then have "\<not> sum_list (map (\<lambda>v. (v - sum_list vs / of_nat (length vs)) ^ 2) vs)
            / (real (length vs) - 1) < 0" by linarith
  then show ?thesis
    using False ne n1
    by (simp add: calculate_std_def calculate_mean_eq py_truediv_def py_sqrt_def
        std_value_def Let_def)
qed

lemma py_max_eq: "vs \<noteq> [] \<Longrightarrow> py_max vs = Inr (Max (set vs))"
proof (cases vs)
  case Nil
  assume "vs \<noteq> []"
  with Nil show ?thesis by simp
next
  case (Cons v rest)
  have "(\<lambda>item max_item :: real. if item > max_item then item else max_item) = max"
    by (intro ext) (simp add: max_def)
  then show ?thesis
    using Cons Max.set_eq_fold [of v rest] by (simp add: py_max_def)
qed

lemma py_min_eq: "vs \<noteq> [] \<Longrightarrow> py_min vs = Inr (Min (set vs))"
proof (cases vs)
  case Nil
  assume "vs \<noteq> []"
  with Nil show ?thesis by simp
next
  case (Cons v rest)
  have "(\<lambda>item min_item :: real. if item < min_item then item else min_item) = min"
    by (intro ext) (simp add: min_def)
  then show ?thesis
    using Cons Min.set_eq_fold [of v rest] by (simp add: py_min_def)
qed

lemma list_remove_mem: "x \<in> set vs \<Longrightarrow> list_remove vs x = Inr (remove1 x vs)"
  by (induction vs) auto

lemma list_remove_not_mem: "x \<notin> set vs \<Longrightarrow> list_remove vs x = Inl ValueError"
  by (induction vs) auto


lemma round_half_even_lower: "of_int n \<le> x \<Longrightarrow> n \<le> round_half_even x"
proof -
  assume "of_int n \<le> x"
  then have "n \<le> \<lfloor>x\<rfloor>" by (simp add: le_floor_iff)
  then show ?thesis by (simp add: round_half_even_def Let_def)
qed

lemma round_half_even_upper: "x \<le> of_int n \<Longrightarrow> round_half_even x \<le> n"
proof (cases "x = of_int n")
  case True
  then show ?thesis by (simp add: round_half_even_def)
next
  case False
  assume "x \<le> of_int n"
  with False have "x < of_int n" by simp
  then have "\<lfloor>x\<rfloor> < n" by (simp add: floor_less_iff)
  then show ?thesis by (simp add: round_half_even_def Let_def)
qed

lemma py_round2_bounds:
  assumes "1 \<le> x" and "x \<le> 25"
  shows "1 \<le> py_round2 x" and "py_round2 x \<le> 25"
proof -
  have "of_int 100 \<le> x * 100" using assms(1) by simp
  then have "100 \<le> round_half_even (x * 100)" by (rule round_half_even_lower)
  then have "(100::real) \<le> of_int (round_half_even (x * 100))" by linarith
  then show "1 \<le> py_round2 x" by (simp add: py_round2_def)
  have "x * 100 \<le> of_int 2500" using assms(2) by simp
  then have "round_half_even (x * 100) \<le> 2500" by (rule round_half_even_upper)
  then have "of_int (round_half_even (x * 100)) \<le> (2500::real)" by linarith
  then show "py_round2 x \<le> 25" by (simp add: py_round2_def)
qed

lemma py_round2_one: "py_round2 1 = 1"
  by (simp add: py_round2_def round_half_even_def)

lemma eps_pos: "0 < eps"
  by (simp add: eps_def)

lemma Max_mem_list: "vs \<noteq> [] \<Longrightarrow> Max (set vs) \<in> set vs"
  by (rule Max_in) simp_all

lemma eva_rest_eq:
  "vs \<noteq> [] \<Longrightarrow> eva_rest vs (Max (set vs)) = Inr (remove1 (Max (set vs)) vs)"
  by (simp add: eva_rest_def list_remove_mem Max_mem_list)

lemma eva_Xmean_S_eq:
  "eva_Xmean_S rest mean std =
     Inr (if rest \<noteq> [] then (sum_list rest / of_nat (length rest), max (std_value rest) eps)
          else (mean, max std eps))"
  by (simp add: eva_Xmean_S_def calculate_mean_eq calculate_std_eq)

lemma eva_standard_error_eq:
  "eva_standard_error std n = Inr (std / (if n > 0 then sqrt (of_nat n) else 1))"
  by (simp add: eva_standard_error_def py_sqrt_def py_truediv_def)

lemma eva_finish_eq:
  assumes "0 < S"
  shows "eva_finish vs mean std Xmax rest Xmean S =
     Inr \<lparr>l_mean = mean, l_std = std, l_Xmax = Xmax, l_rest = rest, l_Xmean = Xmean,
          l_S = S, l_km_a = (Xmax - Xmean) / S, l_km_b = (Xmax - mean) / max std eps,
          l_frequency_factor_raw = max ((Xmax - Xmean) / S) ((Xmax - mean) / max std eps),
          l_frequency_factor =
            py_round2 (max 1 (min 25 (max ((Xmax - Xmean) / S) ((Xmax - mean) / max std eps)))),
          l_pmp = mean + py_round2 (max 1 (min 25 (max ((Xmax - Xmean) / S)
                    ((Xmax - mean) / max std eps)))) * std,
          l_n = length vs,
          l_standard_error = std / (if length vs > 0 then sqrt (of_nat (length vs)) else 1)\<rparr>"
proof -
  have "max std eps \<noteq> 0" using eps_pos by (simp add: max_def)
  then show ?thesis
    using assms by (simp add: eva_finish_def py_truediv_def eva_standard_error_eq Let_def)
qed

lemma S_value_ge: "eps \<le> S_value vs"
  by (simp add: S_value_def Let_def)

lemma eva_locals_of_eq:
  assumes "vs \<noteq> []"
  shows "eva_locals_of vs =
     eva_finish vs (sum_list vs / of_nat (length vs)) (std_value vs) (Max (set vs))
       (remove1 (Max (set vs)) vs) (Xmean_value vs) (S_value vs)"
  using assms
  by (simp add: eva_locals_of_def calculate_mean_eq calculate_std_eq py_max_eq eva_rest_eq
      eva_Xmean_S_eq Xmean_value_def S_value_def Let_def)


lemma S_value_pos: "0 < S_value vs"
  using S_value_ge [of vs] eps_pos by linarith

lemma eva_locals_value_simps:
  "l_mean (eva_locals_value vs) = sum_list vs / of_nat (length vs)"
  "l_std (eva_locals_value vs) = std_value vs"
  "l_Xmax (eva_locals_value vs) = Max (set vs)"
  "l_rest (eva_locals_value vs) = remove1 (Max (set vs)) vs"
  "l_Xmean (eva_locals_value vs) = Xmean_value vs"
  "l_S (eva_locals_value vs) = S_value vs"
  "l_km_a (eva_locals_value vs) = (Max (set vs) - Xmean_value vs) / S_value vs"
  "l_km_b (eva_locals_value vs) =
     (Max (set vs) - sum_list vs / of_nat (length vs)) / max (std_value vs) eps"
  "l_n (eva_locals_value vs) = length vs"
  "l_standard_error (eva_locals_value vs) = std_value vs / sqrt (of_nat (length vs))"
  unfolding eva_locals_value_def Let_def by (simp_all only: eva_locals.select_convs)

lemma eva_locals_value_rel:
  "l_frequency_factor_raw (eva_locals_value vs)
     = max (l_km_a (eva_locals_value vs)) (l_km_b (eva_locals_value vs))"
  "l_frequency_factor (eva_locals_value vs)
     = py_round2 (max 1 (min 25 (l_frequency_factor_raw (eva_locals_value vs))))"
  "l_pmp (eva_locals_value vs)
     = l_mean (eva_locals_value vs)
       + l_frequency_factor (eva_locals_value vs) * l_std (eva_locals_value vs)"
  unfolding eva_locals_value_def Let_def by (simp_all only: eva_locals.select_convs)

lemma eva_locals_of_Inr:
  assumes "vs \<noteq> []"
  shows "eva_locals_of vs = Inr (eva_locals_value vs)"
proof -
  have n: "0 < length vs" using assms by simp
  have "eva_locals_of vs =
     eva_finish vs (sum_list vs / of_nat (length vs)) (std_value vs) (Max (set vs))
       (remove1 (Max (set vs)) vs) (Xmean_value vs) (S_value vs)"
    using assms by (rule eva_locals_of_eq)
  also have "\<dots> = Inr (eva_locals_value vs)"
    unfolding eva_finish_eq [OF S_value_pos] eva_locals_value_def Let_def
    using n by simp
  finally show ?thesis .
qed

lemma calculate_pmp_with_eva_Inr:
  "vs \<noteq> [] \<Longrightarrow> calculate_pmp_with_eva vs = Inr (eva_return (eva_locals_value vs))"
  by (simp add: calculate_pmp_with_eva_def eva_locals_of_Inr)

lemma frequency_factor_bounds:
  "1 \<le> py_round2 (max 1 (min 25 x))" "py_round2 (max 1 (min 25 x)) \<le> 25"
  by (rule py_round2_bounds; simp)+

lemma frequency_factor_value_bounds:
  "1 \<le> l_frequency_factor (eva_locals_value vs)" "l_frequency_factor (eva_locals_value vs) \<le> 25"
  unfolding eva_locals_value_rel(2) by (rule frequency_factor_bounds)+

section \<open>The estimator: frequency factor and point estimate\<close>

text \<open>
  Claim C1. For every non-empty AMDP series of positive numbers, \<^verbatim>\<open>calculate_pmp_with_eva\<close>
  returns a result, and the \<^verbatim>\<open>frequencyFactor\<close> of the result lies in the closed interval
  from 1.0 to 25.0: the clamp \<^verbatim>\<open>max(1.0, min(25.0, raw))\<close> puts it there and rounding to two
  decimals keeps it there, since both bounds are multiples of 0.01.
\<close>

theorem frequency_factor_in_range:
  assumes "amdp_values \<noteq> []" and "\<forall>v \<in> set amdp_values. 0 < v"
  shows "\<exists>r. calculate_pmp_with_eva amdp_values = Inr r
             \<and> 1 \<le> frequencyFactor r \<and> frequencyFactor r \<le> 25"
proof -
  have "calculate_pmp_with_eva amdp_values = Inr (eva_return (eva_locals_value amdp_values))"
    using assms(1) by (rule calculate_pmp_with_eva_Inr)
  moreover have "1 \<le> frequencyFactor (eva_return (eva_locals_value amdp_values))"
    using frequency_factor_value_bounds(1) by (simp add: eva_return_def)
  moreover have "frequencyFactor (eva_return (eva_locals_value amdp_values)) \<le> 25"
    using frequency_factor_value_bounds(2) by (simp add: eva_return_def)
  ultimately show ?thesis by blast
qed

theorem frequency_factor_in_range_witness:
  "\<exists>r. calculate_pmp_with_eva [40, 55, 30] = Inr r
       \<and> 1 \<le> frequencyFactor r \<and> frequencyFactor r \<le> 25"
  using frequency_factor_in_range [of "[40, 55, 30]"] by simp

text \<open>
  Claim C2. For every non-empty AMDP series, the \<^verbatim>\<open>pmp\<close> of the result is at least the mean
  of the series: \<^verbatim>\<open>pmp = mean + frequencyFactor * std\<close>, where the frequency factor is at
  least 1 and the sample standard deviation is not negative.
\<close>

theorem pmp_at_least_mean:
  assumes "amdp_values \<noteq> []"
  shows "\<exists>r m s. calculate_pmp_with_eva amdp_values = Inr r
           \<and> calculate_mean amdp_values = Inr m
           \<and> calculate_std amdp_values = Inr s
           \<and> 1 \<le> frequencyFactor r \<and> 0 \<le> s
           \<and> pmp r = m + frequencyFactor r * s
           \<and> m \<le> pmp r"
proof -
  let ?l = "eva_locals_value amdp_values"
  have r: "calculate_pmp_with_eva amdp_values = Inr (eva_return ?l)"
    using assms by (rule calculate_pmp_with_eva_Inr)
  have cm: "calculate_mean amdp_values = Inr (l_mean ?l)"
    using assms by (simp add: calculate_mean_eq eva_locals_value_simps(1))
  have cs: "calculate_std amdp_values = Inr (l_std ?l)"
    by (simp add: calculate_std_eq eva_locals_value_simps(2))
  have ff1: "1 \<le> l_frequency_factor ?l"
    by (rule frequency_factor_value_bounds(1))
  have s0: "0 \<le> l_std ?l"
    using std_value_nonneg by (simp add: eva_locals_value_simps(2))
  have p: "l_pmp ?l = l_mean ?l + l_frequency_factor ?l * l_std ?l"
    by (rule eva_locals_value_rel(3))
  have "0 \<le> l_frequency_factor ?l * l_std ?l"
    using ff1 s0 by simp
  then have le: "l_mean ?l \<le> l_pmp ?l" using p by simp
  have "calculate_pmp_with_eva amdp_values = Inr (eva_return ?l)
           \<and> calculate_mean amdp_values = Inr (l_mean ?l)
           \<and> calculate_std amdp_values = Inr (l_std ?l)
           \<and> 1 \<le> frequencyFactor (eva_return ?l) \<and> 0 \<le> l_std ?l
           \<and> pmp (eva_return ?l) = l_mean ?l + frequencyFactor (eva_return ?l) * l_std ?l
           \<and> l_mean ?l \<le> pmp (eva_return ?l)"
    using r cm cs ff1 s0 p le by (simp add: eva_return_def)
  then show ?thesis by blast
qed

theorem pmp_at_least_mean_witness:
  "\<exists>r m s. calculate_pmp_with_eva [40, 55, 30] = Inr r
           \<and> calculate_mean [40, 55, 30] = Inr m
           \<and> calculate_std [40, 55, 30] = Inr s
           \<and> 1 \<le> frequencyFactor r \<and> 0 \<le> s
           \<and> pmp r = m + frequencyFactor r * s
           \<and> m \<le> pmp r"
  using pmp_at_least_mean [of "[40, 55, 30]"] by simp

section \<open>The estimator: the list \<open>rest\<close>\<close>

lemma remove1_first_split:
  "x \<in> set vs \<Longrightarrow> \<exists>ys zs. vs = ys @ x # zs \<and> x \<notin> set ys \<and> remove1 x vs = ys @ zs"
proof -
  assume "x \<in> set vs"
  then obtain ys zs where s: "vs = ys @ x # zs" "x \<notin> set ys"
    by (auto dest: split_list_first)
  then have "remove1 x vs = ys @ zs" by (simp add: remove1_append)
  with s show ?thesis by blast
qed

lemma count_list_remove1:
  "x \<in> set vs \<Longrightarrow> count_list (remove1 x vs) x = count_list vs x - 1"
  by (induction vs) auto

lemma remove1_singleton_length:
  "x \<in> set vs \<Longrightarrow> length vs = 1 \<Longrightarrow> remove1 x vs = []"
  by (cases vs) auto

lemma Max_upper_list:
  fixes vs :: "real list"
  shows "v \<in> set vs \<Longrightarrow> v \<le> Max (set vs)"
  by (rule Max_ge) simp_all

text \<open>
  Claim C3. In \<^verbatim>\<open>calculate_pmp_with_eva\<close>, on a non-empty series, \<^verbatim>\<open>Xmax\<close> is the maximum of
  the series: it is an item of the series and no item is greater. \<^verbatim>\<open>rest\<close> is the series
  with exactly one occurrence of \<^verbatim>\<open>Xmax\<close> removed, the first one: the series is
  \<open>ys @ Xmax # zs\<close> with no \<open>Xmax\<close> in \<open>ys\<close>, and \<^verbatim>\<open>rest\<close> is \<open>ys @ zs\<close>. So \<^verbatim>\<open>rest\<close> holds
  one occurrence of \<open>Xmax\<close> less than the series and is one item shorter; the other
  occurrences of \<open>Xmax\<close> stay. For a series of length 1, \<^verbatim>\<open>rest\<close> is empty. For the series
  50, 50, 10, 12, \<^verbatim>\<open>rest\<close> is 50, 10, 12, of length 3; for the series 10, 50, 12, whose
  maximum is not its first item, \<^verbatim>\<open>rest\<close> is 10, 12.
\<close>

theorem rest_removes_one_maximum:
  "(amdp_values \<noteq> [] \<longrightarrow>
      (\<exists>l. eva_locals_of amdp_values = Inr l
         \<and> py_max amdp_values = Inr (l_Xmax l)
         \<and> l_Xmax l \<in> set amdp_values
         \<and> (\<forall>v \<in> set amdp_values. v \<le> l_Xmax l)
         \<and> (\<exists>ys zs. amdp_values = ys @ l_Xmax l # zs \<and> l_Xmax l \<notin> set ys
               \<and> l_rest l = ys @ zs)
         \<and> count_list (l_rest l) (l_Xmax l) = count_list amdp_values (l_Xmax l) - 1
         \<and> length (l_rest l) = length amdp_values - 1
         \<and> (length amdp_values = 1 \<longrightarrow> l_rest l = [])))
   \<and> (\<exists>l. eva_locals_of [50, 50, 10, 12] = Inr l
         \<and> l_Xmax l = 50 \<and> l_rest l = [50, 10, 12] \<and> length (l_rest l) = 3)
   \<and> (\<exists>l. eva_locals_of [10, 50, 12] = Inr l
         \<and> l_Xmax l = 50 \<and> l_rest l = [10, 12])"
proof (intro conjI impI)
  assume ne: "amdp_values \<noteq> []"
  let ?l = "eva_locals_value amdp_values"
  have mem: "Max (set amdp_values) \<in> set amdp_values"
    using ne by (rule Max_mem_list)
  have "eva_locals_of amdp_values = Inr ?l"
    using ne by (rule eva_locals_of_Inr)
  moreover have "py_max amdp_values = Inr (l_Xmax ?l)"
    using ne by (simp add: py_max_eq eva_locals_value_simps)
  moreover have "l_Xmax ?l \<in> set amdp_values"
    using mem by (simp add: eva_locals_value_simps)
  moreover have "\<forall>v \<in> set amdp_values. v \<le> l_Xmax ?l"
    using Max_upper_list by (simp add: eva_locals_value_simps)
  moreover have "\<exists>ys zs. amdp_values = ys @ l_Xmax ?l # zs \<and> l_Xmax ?l \<notin> set ys
               \<and> l_rest ?l = ys @ zs"
    using remove1_first_split [OF mem] by (simp add: eva_locals_value_simps)
  moreover have "count_list (l_rest ?l) (l_Xmax ?l) = count_list amdp_values (l_Xmax ?l) - 1"
    using count_list_remove1 [OF mem] by (simp add: eva_locals_value_simps)
  moreover have "length (l_rest ?l) = length amdp_values - 1"
    using mem by (simp add: eva_locals_value_simps length_remove1)
  moreover have "length amdp_values = 1 \<longrightarrow> l_rest ?l = []"
    using remove1_singleton_length [OF mem] by (simp add: eva_locals_value_simps)
  ultimately show "\<exists>l. eva_locals_of amdp_values = Inr l
         \<and> py_max amdp_values = Inr (l_Xmax l)
         \<and> l_Xmax l \<in> set amdp_values
         \<and> (\<forall>v \<in> set amdp_values. v \<le> l_Xmax l)
         \<and> (\<exists>ys zs. amdp_values = ys @ l_Xmax l # zs \<and> l_Xmax l \<notin> set ys
               \<and> l_rest l = ys @ zs)
         \<and> count_list (l_rest l) (l_Xmax l) = count_list amdp_values (l_Xmax l) - 1
         \<and> length (l_rest l) = length amdp_values - 1
         \<and> (length amdp_values = 1 \<longrightarrow> l_rest l = [])"
    by blast
next
  let ?l = "eva_locals_value [50, 50, 10, 12]"
  have "eva_locals_of [50, 50, 10, 12] = Inr ?l"
    by (rule eva_locals_of_Inr) simp
  moreover have "l_Xmax ?l = 50" by (simp add: eva_locals_value_simps)
  moreover have "l_rest ?l = [50, 10, 12]" by (simp add: eva_locals_value_simps)
  ultimately show "\<exists>l. eva_locals_of [50, 50, 10, 12] = Inr l
         \<and> l_Xmax l = 50 \<and> l_rest l = [50, 10, 12] \<and> length (l_rest l) = 3"
    by simp
next
  let ?l = "eva_locals_value [10, 50, 12]"
  have "eva_locals_of [10, 50, 12] = Inr ?l"
    by (rule eva_locals_of_Inr) simp
  moreover have "l_Xmax ?l = 50" by (simp add: eva_locals_value_simps)
  moreover have "l_rest ?l = [10, 12]" by (simp add: eva_locals_value_simps)
  ultimately show "\<exists>l. eva_locals_of [10, 50, 12] = Inr l
         \<and> l_Xmax l = 50 \<and> l_rest l = [10, 12]"
    by simp
qed

theorem rest_removes_one_maximum_witness:
  "(\<exists>l. eva_locals_of [7] = Inr l \<and> py_max [7] = Inr (l_Xmax l) \<and> l_Xmax l = 7
        \<and> l_rest l = [])
   \<and> (\<exists>l. eva_locals_of [50, 50, 10, 12] = Inr l
         \<and> l_Xmax l = 50 \<and> l_rest l = [50, 10, 12] \<and> length (l_rest l) = 3)
   \<and> (\<exists>l. eva_locals_of [10, 50, 12] = Inr l
         \<and> l_Xmax l = 50 \<and> l_rest l = [10, 12])"
  using rest_removes_one_maximum [of "[7]"] by auto

section \<open>The guards of the estimator\<close>

text \<open>
  What the guards of \<^verbatim>\<open>calculate_pmp_with_eva\<close> achieve, on exact reals: on a non-empty
  series no division is by zero and no square root is of a negative number. \<open>eps\<close> is
  \<open>10\<^sup>-\<^sup>6\<close>; the divisors \<^verbatim>\<open>S\<close> and \<^verbatim>\<open>max(std, eps)\<close> are at least \<open>eps\<close>, so that the two
  divisions return \<^verbatim>\<open>km_a\<close> and \<^verbatim>\<open>km_b\<close>; the division of the standard error returns, for
  every \<^verbatim>\<open>std\<close> and every \<^verbatim>\<open>n\<close>, zero included. This is not the statement that the
  program never raises: on a series such as \<open>10\<^sup>2\<^sup>0\<^sup>0\<close>, 1 the square \<^verbatim>\<open>(v - mean) ** 2\<close> of
  \<^verbatim>\<open>calculate_std\<close> exceeds the largest double and Python raises OverflowError there, a
  case that no guard of the source covers and that exact reals do not have.
\<close>

lemma eva_guards_exact:
  assumes "amdp_values \<noteq> []"
  shows "\<exists>l r. eva_locals_of amdp_values = Inr l
           \<and> calculate_pmp_with_eva amdp_values = Inr r
           \<and> eps = 1 / 1000000
           \<and> eps \<le> l_S l
           \<and> eps \<le> max (l_std l) eps
           \<and> py_truediv (l_Xmax l - l_Xmean l) (l_S l) = Inr (l_km_a l)
           \<and> py_truediv (l_Xmax l - l_mean l) (max (l_std l) eps) = Inr (l_km_b l)
           \<and> eva_standard_error (l_std l) (length amdp_values) = Inr (l_standard_error l)
           \<and> (\<forall>s n. \<exists>e. eva_standard_error s n = Inr e)"
proof -
  let ?l = "eva_locals_value amdp_values"
  have n: "0 < length amdp_values" using assms by simp
  have l: "eva_locals_of amdp_values = Inr ?l"
    using assms by (rule eva_locals_of_Inr)
  have r: "calculate_pmp_with_eva amdp_values = Inr (eva_return ?l)"
    using assms by (rule calculate_pmp_with_eva_Inr)
  have S: "eps \<le> l_S ?l"
    by (simp add: eva_locals_value_simps S_value_ge)
  have S0: "l_S ?l \<noteq> 0"
    using S_value_pos [of amdp_values] by (simp add: eva_locals_value_simps)
  have M: "eps \<le> max (l_std ?l) eps" by simp
  have M0: "max (l_std ?l) eps \<noteq> 0" using eps_pos by (simp add: max_def)
  have a: "py_truediv (l_Xmax ?l - l_Xmean ?l) (l_S ?l) = Inr (l_km_a ?l)"
    using S0 by (simp add: py_truediv_def eva_locals_value_simps)
  have b: "py_truediv (l_Xmax ?l - l_mean ?l) (max (l_std ?l) eps) = Inr (l_km_b ?l)"
    using M0 by (simp add: py_truediv_def eva_locals_value_simps)
  have se: "eva_standard_error (l_std ?l) (length amdp_values) = Inr (l_standard_error ?l)"
    using n by (simp add: eva_standard_error_eq eva_locals_value_simps)
  have g: "\<forall>s n. \<exists>e. eva_standard_error s n = Inr e"
    by (simp add: eva_standard_error_eq)
  have e: "eps = 1 / 1000000" by (simp add: eps_def)
  show ?thesis
    using l r e S M a b se g by blast
qed

section \<open>The estimator: confidence interval\<close>

text \<open>
  Claim C7. For every non-empty AMDP series of length \<open>n\<close>, the confidence interval of the
  result is \<open>pmp - 1.96 * (std / sqrt n)\<close> to \<open>pmp + 1.96 * (std / sqrt n)\<close>, where \<open>std\<close> is
  the sample standard deviation of the series; and the standard error divides by 1 when
  \<open>n\<close> is 0.
\<close>

theorem confidence_interval_formula:
  assumes "amdp_values \<noteq> []"
  shows "\<exists>r s. calculate_pmp_with_eva amdp_values = Inr r
           \<and> calculate_std amdp_values = Inr s
           \<and> lower (confidenceInterval r)
               = pmp r - 196 / 100 * (s / sqrt (of_nat (length amdp_values)))
           \<and> upper (confidenceInterval r)
               = pmp r + 196 / 100 * (s / sqrt (of_nat (length amdp_values)))
           \<and> eva_standard_error s (length amdp_values)
               = Inr (s / sqrt (of_nat (length amdp_values)))
           \<and> eva_standard_error s 0 = Inr (s / 1)"
proof -
  let ?l = "eva_locals_value amdp_values"
  have n: "0 < length amdp_values" using assms by simp
  have r: "calculate_pmp_with_eva amdp_values = Inr (eva_return ?l)"
    using assms by (rule calculate_pmp_with_eva_Inr)
  have s: "calculate_std amdp_values = Inr (std_value amdp_values)"
    by (rule calculate_std_eq)
  have lo: "lower (confidenceInterval (eva_return ?l))
      = pmp (eva_return ?l) - 196 / 100 * (std_value amdp_values / sqrt (of_nat (length amdp_values)))"
    by (simp add: eva_return_def eva_locals_value_simps)
  have up: "upper (confidenceInterval (eva_return ?l))
      = pmp (eva_return ?l) + 196 / 100 * (std_value amdp_values / sqrt (of_nat (length amdp_values)))"
    by (simp add: eva_return_def eva_locals_value_simps)
  have se: "eva_standard_error (std_value amdp_values) (length amdp_values)
      = Inr (std_value amdp_values / sqrt (of_nat (length amdp_values)))"
    using n by (simp add: eva_standard_error_eq)
  have g: "eva_standard_error (std_value amdp_values) 0 = Inr (std_value amdp_values / 1)"
    by (simp add: eva_standard_error_eq)
  show ?thesis
    using r s lo up se g by blast
qed

theorem confidence_interval_formula_witness:
  "\<exists>r s. calculate_pmp_with_eva [40, 55, 30] = Inr r
           \<and> calculate_std [40, 55, 30] = Inr s
           \<and> lower (confidenceInterval r)
               = pmp r - 196 / 100 * (s / sqrt (of_nat (length [40, 55, 30 :: real])))
           \<and> upper (confidenceInterval r)
               = pmp r + 196 / 100 * (s / sqrt (of_nat (length [40, 55, 30 :: real])))
           \<and> eva_standard_error s (length [40, 55, 30 :: real])
               = Inr (s / sqrt (of_nat (length [40, 55, 30 :: real])))
           \<and> eva_standard_error s 0 = Inr (s / 1)"
  using confidence_interval_formula [of "[40, 55, 30]"] by simp

section \<open>The estimator on a constant series\<close>

lemma sum_list_all_equal:
  fixes c :: real
  shows "\<forall>v \<in> set vs. v = c \<Longrightarrow> sum_list vs = of_nat (length vs) * c"
  by (induction vs) (auto simp: algebra_simps)

lemma mean_all_equal:
  fixes c :: real
  assumes "\<forall>v \<in> set vs. v = c" and "vs \<noteq> []"
  shows "sum_list vs / of_nat (length vs) = c"
  using assms by (simp add: sum_list_all_equal)

lemma sum_squares_all_equal:
  fixes c :: real
  shows "\<forall>v \<in> set vs. v = c \<Longrightarrow> sum_list (map (\<lambda>v. (v - c) ^ 2) vs) = 0"
  by (induction vs) auto

lemma std_value_all_equal:
  assumes "\<forall>v \<in> set vs. v = c"
  shows "std_value vs = 0"
proof (cases "length vs < 2")
  case True
  then show ?thesis by (simp add: std_value_def)
next
  case False
  then have "vs \<noteq> []" by auto
  then have "sum_list vs / of_nat (length vs) = c"
    using assms by (simp add: mean_all_equal)
  then show ?thesis
    using assms by (simp add: std_value_def sum_squares_all_equal)
qed

lemma Max_all_equal:
  fixes c :: real
  assumes "\<forall>v \<in> set vs. v = c" and "vs \<noteq> []"
  shows "Max (set vs) = c"
  using assms Max_mem_list [OF assms(2)] by blast

lemma Xmean_value_all_equal:
  assumes "\<forall>v \<in> set vs. v = c" and "vs \<noteq> []"
  shows "Xmean_value vs = c"
proof -
  have r: "\<forall>v \<in> set (remove1 (Max (set vs)) vs). v = c"
    using assms(1) by (meson notin_set_remove1)
  show ?thesis
    using assms r by (simp add: Xmean_value_def Let_def mean_all_equal)
qed

text \<open>
  In exact arithmetic, a non-empty series whose items all equal a constant \<open>c\<close> has the
  mean \<open>c\<close> and the sample standard deviation 0; both candidate factors \<^verbatim>\<open>km_a\<close> and
  \<^verbatim>\<open>km_b\<close> are 0, the frequency factor is clamped to 1, and \<^verbatim>\<open>pmp\<close> is \<open>c\<close>. This is a
  statement about the formulas only. The program computes the mean in IEEE doubles, where
  \<^verbatim>\<open>sum(values) / len(values)\<close> of equal values can differ from the value in the last place
  (for 0.1, 0.1, 0.1 it is 0.10000000000000002), and then neither the standard deviation
  nor \<^verbatim>\<open>km_b\<close> is exactly 0.
\<close>

lemma constant_series_exact:
  assumes "amdp_values \<noteq> []" and "\<forall>v \<in> set amdp_values. v = c"
  shows "calculate_std amdp_values = Inr 0
         \<and> (\<exists>l r. eva_locals_of amdp_values = Inr l
               \<and> l_std l = 0 \<and> l_km_a l = 0 \<and> l_km_b l = 0
               \<and> l_frequency_factor l = 1
               \<and> calculate_pmp_with_eva amdp_values = Inr r
               \<and> frequencyFactor r = 1 \<and> pmp r = c)"
proof -
  let ?l = "eva_locals_value amdp_values"
  have s: "std_value amdp_values = 0"
    using assms(2) by (rule std_value_all_equal)
  have m: "sum_list amdp_values / of_nat (length amdp_values) = c"
    using assms(2,1) by (rule mean_all_equal)
  have x: "Max (set amdp_values) = c"
    using assms(2,1) by (rule Max_all_equal)
  have xm: "Xmean_value amdp_values = c"
    using assms(2,1) by (rule Xmean_value_all_equal)
  have cs: "calculate_std amdp_values = Inr 0"
    using s by (simp add: calculate_std_eq)
  have l: "eva_locals_of amdp_values = Inr ?l"
    using assms(1) by (rule eva_locals_of_Inr)
  have r: "calculate_pmp_with_eva amdp_values = Inr (eva_return ?l)"
    using assms(1) by (rule calculate_pmp_with_eva_Inr)
  have ls: "l_std ?l = 0" using s by (simp add: eva_locals_value_simps)
  have a: "l_km_a ?l = 0" using x xm by (simp add: eva_locals_value_simps)
  have b: "l_km_b ?l = 0" using x m by (simp add: eva_locals_value_simps)
  have ff: "l_frequency_factor ?l = 1"
    using a b by (simp add: eva_locals_value_rel(1,2) py_round2_one)
  have p: "l_pmp ?l = c"
    using ff ls m by (simp add: eva_locals_value_rel(3) eva_locals_value_simps(1))
  have rf: "frequencyFactor (eva_return ?l) = 1" using ff by (simp add: eva_return_def)
  have rp: "pmp (eva_return ?l) = c" using p by (simp add: eva_return_def)
  show ?thesis
    using cs l r ls a b ff rf rp by blast
qed

section \<open>Descriptive statistics on degenerate input\<close>

text \<open>
  Claim C8. \<^verbatim>\<open>calculate_mean\<close> returns 0 for the empty sequence; \<^verbatim>\<open>calculate_std\<close> returns 0
  for every sequence of length below 2; \<^verbatim>\<open>calculate_trend\<close> returns 0 for every sequence of
  length below 2, and whenever the denominator of the slope, the sum of the squared
  deviations of the indices from their mean, is exactly zero.
\<close>

theorem statistics_sentinels:
  "calculate_mean [] = Inr 0
   \<and> (length values < 2 \<longrightarrow> calculate_std values = Inr 0)
   \<and> (length values < 2 \<longrightarrow> calculate_trend values = Inr 0)
   \<and> (\<forall>x_mean. calculate_mean (map of_nat [0..<length values]) = Inr x_mean
          \<and> trend_den (map of_nat [0..<length values]) x_mean = 0
        \<longrightarrow> calculate_trend values = Inr 0)"
proof -
  have m: "calculate_mean [] = Inr 0"
    by (simp add: calculate_mean_def)
  have s: "length values < 2 \<longrightarrow> calculate_std values = Inr 0"
    by (simp add: calculate_std_def)
  have t: "length values < 2 \<longrightarrow> calculate_trend values = Inr 0"
    by (simp add: calculate_trend_def)
  have d: "\<forall>x_mean. calculate_mean (map of_nat [0..<length values]) = Inr x_mean
          \<and> trend_den (map of_nat [0..<length values]) x_mean = 0
        \<longrightarrow> calculate_trend values = Inr 0"
  proof (intro allI impI)
    fix x_mean
    assume a: "calculate_mean (map of_nat [0..<length values]) = Inr x_mean
          \<and> trend_den (map of_nat [0..<length values]) x_mean = 0"
    then show "calculate_trend values = Inr 0"
      by (simp add: calculate_trend_def Let_def calculate_mean_eq [of "values"])
  qed
  show ?thesis using m s t d by blast
qed

theorem statistics_sentinels_witness:
  "calculate_mean [] = Inr 0
   \<and> calculate_std [5] = Inr 0
   \<and> calculate_trend [5] = Inr 0
   \<and> calculate_mean (map of_nat [0..<length [5::real]]) = Inr 0
   \<and> trend_den (map of_nat [0..<length [5::real]]) 0 = 0"
proof -
  have a: "length [5::real] < 2" by simp
  have b: "calculate_mean (map of_nat [0..<length [5::real]]) = Inr 0"
    by (simp add: calculate_mean_def py_truediv_def)
  have c: "trend_den (map of_nat [0..<length [5::real]]) 0 = 0"
    by (simp add: trend_den_def)
  show ?thesis
    using statistics_sentinels [of "[5]"] a b c by simp
qed

section \<open>Climate adjustment\<close>







section \<open>The yearly aggregator's contract\<close>

lemma optional_of_mean:
  "optional_of vs calculate_mean =
     Inr (if vs \<noteq> [] then Some (sum_list vs / of_nat (length vs)) else None)"
  by (simp add: optional_of_def calculate_mean_eq)

lemma optional_of_max:
  "optional_of vs py_max = Inr (if vs \<noteq> [] then Some (Max (set vs)) else None)"
  by (simp add: optional_of_def py_max_eq)

lemma optional_of_min:
  "optional_of vs py_min = Inr (if vs \<noteq> [] then Some (Min (set vs)) else None)"
  by (simp add: optional_of_def py_min_eq)

lemma not_none_nonneg_filter:
  "not_none_nonneg vs = map the (filter (\<lambda>v. v \<noteq> None \<and> 0 \<le> the v) vs)"
proof (induction vs)
  case Nil
  show ?case by (simp add: not_none_nonneg_def)
next
  case (Cons v vs)
  then show ?case by (cases v) (simp_all add: not_none_nonneg_def)
qed

lemma process_yearly_data_empty:
  "not_none_nonneg (dict_get d ''precipitation_sum'') = []
     \<Longrightarrow> process_yearly_data d yr = Inr None"
  by (simp add: process_yearly_data_def Let_def)

lemma process_yearly_data_Some:
  assumes "not_none_nonneg (dict_get d ''precipitation_sum'') \<noteq> []"
  shows "process_yearly_data d yr =
     Inr (Some \<lparr>year = yr,
                amdp = Max (set (not_none_nonneg (dict_get d ''precipitation_sum''))),
                totalPrecip = sum_list (not_none_nonneg (dict_get d ''precipitation_sum'')),
                avgTemp = (if not_none (dict_get d ''temperature_2m_mean'') \<noteq> []
                  then Some (sum_list (not_none (dict_get d ''temperature_2m_mean''))
                       / of_nat (length (not_none (dict_get d ''temperature_2m_mean''))))
                  else None),
                maxTemp = (if not_none (dict_get d ''temperature_2m_max'') \<noteq> []
                  then Some (Max (set (not_none (dict_get d ''temperature_2m_max''))))
                  else None),
                minTemp = (if not_none (dict_get d ''temperature_2m_min'') \<noteq> []
                  then Some (Min (set (not_none (dict_get d ''temperature_2m_min''))))
                  else None),
                avgWind = (if not_none (dict_get d ''windspeed_10m_max'') \<noteq> []
                  then Some (sum_list (not_none (dict_get d ''windspeed_10m_max''))
                       / of_nat (length (not_none (dict_get d ''windspeed_10m_max''))))
                  else None),
                dataPoints = length (not_none_nonneg (dict_get d ''precipitation_sum''))\<rparr>)"
  using assms
  by (simp add: process_yearly_data_def Let_def py_max_eq optional_of_mean optional_of_max
      optional_of_min)

text \<open>
  Claim C9. \<^verbatim>\<open>process_yearly_data\<close> returns \<^verbatim>\<open>None\<close> exactly when the valid precipitation
  values, the items of \<^verbatim>\<open>precipitation_sum\<close> that are present and not negative, are none.
  Otherwise it returns a summary whose \<^verbatim>\<open>amdp\<close> is the maximum of the valid precipitation
  values, whose \<^verbatim>\<open>totalPrecip\<close> is their sum and whose \<^verbatim>\<open>dataPoints\<close> is their number; each
  of \<^verbatim>\<open>avgTemp\<close>, \<^verbatim>\<open>maxTemp\<close>, \<^verbatim>\<open>minTemp\<close> and \<^verbatim>\<open>avgWind\<close> is \<^verbatim>\<open>None\<close> exactly when its own
  series has no present item, whatever the other series hold.
\<close>

theorem process_yearly_data_contract:
  "(process_yearly_data d yr = Inr None
      \<longleftrightarrow> not_none_nonneg (dict_get d ''precipitation_sum'') = [])
   \<and> not_none_nonneg (dict_get d ''precipitation_sum'')
       = map the (filter (\<lambda>v. v \<noteq> None \<and> 0 \<le> the v) (dict_get d ''precipitation_sum''))
   \<and> (not_none_nonneg (dict_get d ''precipitation_sum'') \<noteq> [] \<longrightarrow>
        (\<exists>s. process_yearly_data d yr = Inr (Some s)
           \<and> year s = yr
           \<and> amdp s = Max (set (not_none_nonneg (dict_get d ''precipitation_sum'')))
           \<and> totalPrecip s = sum_list (not_none_nonneg (dict_get d ''precipitation_sum''))
           \<and> dataPoints s = length (not_none_nonneg (dict_get d ''precipitation_sum''))
           \<and> (avgTemp s = None \<longleftrightarrow> not_none (dict_get d ''temperature_2m_mean'') = [])
           \<and> (maxTemp s = None \<longleftrightarrow> not_none (dict_get d ''temperature_2m_max'') = [])
           \<and> (minTemp s = None \<longleftrightarrow> not_none (dict_get d ''temperature_2m_min'') = [])
           \<and> (avgWind s = None \<longleftrightarrow> not_none (dict_get d ''windspeed_10m_max'') = [])))"
proof (intro conjI impI)
  show "process_yearly_data d yr = Inr None
      \<longleftrightarrow> not_none_nonneg (dict_get d ''precipitation_sum'') = []"
  proof (cases "not_none_nonneg (dict_get d ''precipitation_sum'') = []")
    case True
    then show ?thesis by (simp add: process_yearly_data_empty)
  next
    case False
    then show ?thesis by (simp add: process_yearly_data_Some)
  qed
next
  show "not_none_nonneg (dict_get d ''precipitation_sum'')
       = map the (filter (\<lambda>v. v \<noteq> None \<and> 0 \<le> the v) (dict_get d ''precipitation_sum''))"
    by (rule not_none_nonneg_filter)
next
  assume ne: "not_none_nonneg (dict_get d ''precipitation_sum'') \<noteq> []"
  show "\<exists>s. process_yearly_data d yr = Inr (Some s)
           \<and> year s = yr
           \<and> amdp s = Max (set (not_none_nonneg (dict_get d ''precipitation_sum'')))
           \<and> totalPrecip s = sum_list (not_none_nonneg (dict_get d ''precipitation_sum''))
           \<and> dataPoints s = length (not_none_nonneg (dict_get d ''precipitation_sum''))
           \<and> (avgTemp s = None \<longleftrightarrow> not_none (dict_get d ''temperature_2m_mean'') = [])
           \<and> (maxTemp s = None \<longleftrightarrow> not_none (dict_get d ''temperature_2m_max'') = [])
           \<and> (minTemp s = None \<longleftrightarrow> not_none (dict_get d ''temperature_2m_min'') = [])
           \<and> (avgWind s = None \<longleftrightarrow> not_none (dict_get d ''windspeed_10m_max'') = [])"
    unfolding process_yearly_data_Some [OF ne] by simp
qed

theorem process_yearly_data_contract_witness:
  "\<exists>s. process_yearly_data
          (Map.empty(''precipitation_sum'' \<mapsto> [Some 3, None, Some (- 1), Some 12],
                     ''temperature_2m_max'' \<mapsto> [Some 30, None])) 2020 = Inr (Some s)
       \<and> year s = 2020 \<and> amdp s = 12 \<and> totalPrecip s = 15 \<and> dataPoints s = 2
       \<and> avgTemp s = None \<and> maxTemp s \<noteq> None \<and> minTemp s = None \<and> avgWind s = None"
proof -
  let ?d = "Map.empty(''precipitation_sum'' \<mapsto> [Some 3, None, Some (- 1), Some 12],
                     ''temperature_2m_max'' \<mapsto> [Some (30::real), None])"
  have p: "not_none_nonneg (dict_get ?d ''precipitation_sum'') = [3, 12]"
    by (simp add: not_none_nonneg_def dict_get_def)
  have t: "not_none (dict_get ?d ''temperature_2m_max'') = [30]"
    by (simp add: not_none_def dict_get_def)
  have e: "not_none (dict_get ?d ''temperature_2m_mean'') = []"
    "not_none (dict_get ?d ''temperature_2m_min'') = []"
    "not_none (dict_get ?d ''windspeed_10m_max'') = []"
    by (simp_all add: not_none_def dict_get_def)
  have ne: "not_none_nonneg (dict_get ?d ''precipitation_sum'') \<noteq> []"
    unfolding p by simp
  show ?thesis
    using process_yearly_data_contract
      [of ?d 2020, THEN conjunct2, THEN conjunct2, THEN mp, OF ne]
    unfolding p t e by (simp add: numeral_2_eq_2)
qed

section \<open>The estimator leaves its argument as it is\<close>

lemma eva_rest_store_eq:
  assumes "a < length h"
  shows "eva_rest_store h a x =
     (if x \<in> set (h ! a) then (h @ [remove1 x (h ! a)], Inr (length h))
      else (h @ [h ! a, h ! a], Inr (Suc (length h))))"
proof (cases "x \<in> set (h ! a)")
  case True
  then show ?thesis
    by (simp add: eva_rest_store_def store_copy_def store_remove_def list_remove_mem)
next
  case False
  then show ?thesis
    using assms
    by (simp add: eva_rest_store_def store_copy_def store_remove_def list_remove_not_mem
        nth_append)
qed

lemma calculate_pmp_with_eva_Nil: "calculate_pmp_with_eva [] = Inl ValueError"
  by (simp add: calculate_pmp_with_eva_def eva_locals_of_def calculate_mean_eq
      calculate_std_eq py_max_def)

lemma calculate_pmp_with_eva_store_eq:
  assumes "a < length h"
  shows "calculate_pmp_with_eva_store h a =
     (if h ! a = [] then (h, Inl ValueError)
      else (h @ [remove1 (Max (set (h ! a))) (h ! a)], calculate_pmp_with_eva (h ! a)))"
proof (cases "h ! a = []")
  case True
  then show ?thesis
    by (simp add: calculate_pmp_with_eva_store_def bind_store_def calculate_mean_eq
        calculate_std_eq py_max_def)
next
  case False
  then have mem: "Max (set (h ! a)) \<in> set (h ! a)" by (rule Max_mem_list)
  show ?thesis
    using False assms mem
    by (simp add: calculate_pmp_with_eva_store_def bind_store_def calculate_mean_eq
        calculate_std_eq py_max_eq eva_rest_store_eq nth_append
        calculate_pmp_with_eva_def eva_locals_of_def eva_rest_eq eva_Xmean_S_eq)
qed

text \<open>
  Claim C10. \<^verbatim>\<open>calculate_pmp_with_eva\<close> does not mutate its input. On the store, with
  \<^verbatim>\<open>amdp_values\<close> a valid address: after the call the list at that address is the list
  before the call, as is the list at every other address of the store before the call
  (\<^verbatim>\<open>remove\<close> acts on the copy, a new object); and the result is the one computed from the
  contents of the list.
\<close>

theorem eva_does_not_mutate_input:
  assumes "a < length h"
  shows "fst (calculate_pmp_with_eva_store h a) ! a = h ! a
         \<and> (\<forall>b < length h. fst (calculate_pmp_with_eva_store h a) ! b = h ! b)
         \<and> length h \<le> length (fst (calculate_pmp_with_eva_store h a))
         \<and> snd (calculate_pmp_with_eva_store h a) = calculate_pmp_with_eva (h ! a)"
  using assms
  by (simp add: calculate_pmp_with_eva_store_eq nth_append calculate_pmp_with_eva_Nil)

theorem eva_does_not_mutate_input_witness:
  "fst (calculate_pmp_with_eva_store [[50, 50, 10, 12]] 0) ! 0 = [50, 50, 10, 12]
   \<and> snd (calculate_pmp_with_eva_store [[50, 50, 10, 12]] 0)
       = calculate_pmp_with_eva [50, 50, 10, 12]
   \<and> fst (calculate_pmp_with_eva_store [[50, 50, 10, 12]] 0)
       = [[50, 50, 10, 12], [50, 10, 12]]"
proof -
  have "fst (calculate_pmp_with_eva_store [[50, 50, 10, 12]] 0)
       = [[50, 50, 10, 12], [50, 10, 12]]"
    by (simp add: calculate_pmp_with_eva_store_eq)
  then show ?thesis
    using eva_does_not_mutate_input [of 0 "[[50, 50, 10, 12]]"] by simp
qed

end
